theory Spec2Isabelle
  imports Main "HOL-Library.Sublist"
begin

section \<open>JavaScript values and the builtins used by src/index.ts\<close>

text \<open>
  A JavaScript value as far as the handlers look at one: \<open>undefined\<close> (the initial
  value of \<open>let content;\<close> and of a destructured property that is missing), \<open>null\<close>,
  booleans, numbers, strings, arrays and plain objects. An object is the list of its own
  enumerable properties in enumeration order. The handlers never compute with a number
  or look inside a payload string: a number here is an integer that a double holds
  exactly and prints in decimal (absolute value below \<open>2^53\<close>), a string a list of 8-bit
  characters. Other numbers and characters are outside this model. A value is a tree: it
  has no cycles, no accessors and no \<open>toJSON\<close> method.
\<close>

datatype jsvalue =
    JUndefined
  | JNull
  | JBool bool
  | JNumber int
  | JString string
  | JArray "jsvalue list"
  | JObject "(string \<times> jsvalue) list"

text \<open>\<open>s.startsWith(p)\<close> and \<open>s.replace(p, r)\<close> with a string pattern: only the first
  occurrence of the pattern is replaced.\<close>

definition startsWith :: "string \<Rightarrow> string \<Rightarrow> bool" where
  "startsWith s p = prefix p s"

fun String_replace :: "string \<Rightarrow> string \<Rightarrow> string \<Rightarrow> string" where
  "String_replace [] p r = (if p = [] then r else [])"
| "String_replace (c # cs) p r =
     (if prefix p (c # cs) then r @ drop (length p) (c # cs)
      else c # String_replace cs p r)"

subsection \<open>JSON.stringify\<close>

text \<open>The builtin as ECMA-262 defines it (QuoteJSONString, SerializeJSONProperty,
  SerializeJSONArray, SerializeJSONObject), on the values above and with no replacer:
  a property whose value is \<open>undefined\<close> is left out of an object, and an array element
  that is \<open>undefined\<close> is written as \<open>null\<close>. \<open>Number_toString\<close> is the builtin's
  conversion on the integers of the model only.\<close>

definition digit_char :: "nat \<Rightarrow> char" where
  "digit_char n = (''0123456789abcdef'') ! (n mod 16)"

definition UnicodeEscape :: "char \<Rightarrow> string" where
  "UnicodeEscape c =
     [CHR 0x5C, CHR ''u'', CHR ''0'', CHR ''0'',
      digit_char (of_char c div 16), digit_char (of_char c mod 16)]"

definition QuoteJSONChar :: "char \<Rightarrow> string" where
  "QuoteJSONChar c =
     (if c = CHR 0x08 then [CHR 0x5C, CHR ''b'']
      else if c = CHR 0x09 then [CHR 0x5C, CHR ''t'']
      else if c = CHR 0x0A then [CHR 0x5C, CHR ''n'']
      else if c = CHR 0x0C then [CHR 0x5C, CHR ''f'']
      else if c = CHR 0x0D then [CHR 0x5C, CHR ''r'']
      else if c = CHR 0x22 then [CHR 0x5C, CHR 0x22]
      else if c = CHR 0x5C then [CHR 0x5C, CHR 0x5C]
      else if (of_char c :: nat) < 32 then UnicodeEscape c
      else [c])"

definition QuoteJSONString :: "string \<Rightarrow> string" where
  "QuoteJSONString s = CHR 0x22 # concat (map QuoteJSONChar s) @ [CHR 0x22]"

fun digits :: "nat \<Rightarrow> string" where
  "digits n =
     (if n < 10 then [digit_char n] else digits (n div 10) @ [digit_char (n mod 10)])"

declare digits.simps [simp del]

definition Number_toString :: "int \<Rightarrow> string" where
  "Number_toString i = (if i < 0 then CHR ''-'' # digits (nat (- i)) else digits (nat i))"

fun join :: "string \<Rightarrow> string list \<Rightarrow> string" where
  "join sep [] = []"
| "join sep [x] = x"
| "join sep (x # y # ys) = x @ sep @ join sep (y # ys)"

text \<open>The common tail of SerializeJSONObject and SerializeJSONArray: \<open>partial\<close> holds the
  serialized members, \<open>stepback\<close> the indentation before this level, \<open>indent\<close> the one of
  this level.\<close>

definition bracketed ::
  "string \<Rightarrow> string \<Rightarrow> string \<Rightarrow> string \<Rightarrow> string \<Rightarrow> string list \<Rightarrow> string" where
  "bracketed l r gap stepback indent partial =
     (if partial = [] then l @ r
      else if gap = [] then l @ join '','' partial @ r
      else l @ [CHR 0x0A] @ indent @ join ('','' @ [CHR 0x0A] @ indent) partial
             @ [CHR 0x0A] @ stepback @ r)"

fun SerializeJSONProperty :: "string \<Rightarrow> string \<Rightarrow> jsvalue \<Rightarrow> string option"
  and SerializeJSONArray :: "string \<Rightarrow> string \<Rightarrow> jsvalue list \<Rightarrow> string list"
  and SerializeJSONObject :: "string \<Rightarrow> string \<Rightarrow> (string \<times> jsvalue) list \<Rightarrow> string list"
where
  "SerializeJSONProperty gap indent JUndefined = None"
| "SerializeJSONProperty gap indent JNull = Some ''null''"
| "SerializeJSONProperty gap indent (JBool b) = Some (if b then ''true'' else ''false'')"
| "SerializeJSONProperty gap indent (JNumber i) = Some (Number_toString i)"
| "SerializeJSONProperty gap indent (JString s) = Some (QuoteJSONString s)"
| "SerializeJSONProperty gap indent (JArray xs) =
     Some (bracketed ''['' '']'' gap indent (indent @ gap)
             (SerializeJSONArray gap (indent @ gap) xs))"
| "SerializeJSONProperty gap indent (JObject kvs) =
     Some (bracketed ''{'' ''}'' gap indent (indent @ gap)
             (SerializeJSONObject gap (indent @ gap) kvs))"
| "SerializeJSONArray gap indent [] = []"
| "SerializeJSONArray gap indent (x # xs) =
     (case SerializeJSONProperty gap indent x of None \<Rightarrow> ''null'' | Some s \<Rightarrow> s)
       # SerializeJSONArray gap indent xs"
| "SerializeJSONObject gap indent [] = []"
| "SerializeJSONObject gap indent (kv # kvs) =
     (case SerializeJSONProperty gap indent (snd kv) of
        None \<Rightarrow> SerializeJSONObject gap indent kvs
      | Some s \<Rightarrow>
          (QuoteJSONString (fst kv) @ '':'' @ (if gap = [] then [] else '' '') @ s)
            # SerializeJSONObject gap indent kvs)"

text \<open>\<open>JSON.stringify(value, null, space)\<close>; \<open>JSON.stringify(value)\<close> is space 0. The
  result is \<open>undefined\<close> (None) when the value is.\<close>

definition JSON_stringify :: "jsvalue \<Rightarrow> nat \<Rightarrow> string option" where
  "JSON_stringify v space = SerializeJSONProperty (replicate (min 10 space) CHR '' '') [] v"

section \<open>Errors, the SDK and the backend client\<close>

datatype ErrorCode = InvalidRequest | MethodNotFound | InternalError

text \<open>What a \<open>throw\<close> or a rejected promise carries: an \<open>McpError\<close> built with a code and
  a message, another instance of \<open>Error\<close> with its \<open>message\<close>, or any other value, given
  by its \<open>String(...)\<close> conversion.\<close>

datatype thrown =
    McpError ErrorCode string
  | ErrorObject string
  | OtherThrown string

text \<open>The parts of the platform that the source uses and does not define: the
  \<open>message\<close> that the SDK's \<open>McpError\<close> constructor derives from code and message, and
  the message of the TypeError raised by destructuring \<open>undefined\<close>, which names the first
  property of the pattern.\<close>

record runtime =
  mcp_message :: "ErrorCode \<Rightarrow> string \<Rightarrow> string"
  destructure_message :: "string \<Rightarrow> string"

text \<open>\<open>error instanceof Error ? error.message : String(error)\<close>\<close>

fun error_text :: "runtime \<Rightarrow> thrown \<Rightarrow> string" where
  "error_text rt (McpError c m) = mcp_message rt c m"
| "error_text rt (ErrorObject m) = m"
| "error_text rt (OtherThrown s) = s"

record Connection =
  nodes :: jsvalue

record Issue =
  url :: string

text \<open>An issue payload as the tool handler reads it: the outcome of \<open>await issue.issue\<close>,
  which rejects, or resolves to \<open>undefined\<close> or to an issue.\<close>

record IssuePayload =
  payload_issue :: "thrown + Issue option"

text \<open>The Linear client: each operation either throws or returns.\<close>

record LinearClient =
  issues :: "jsvalue \<Rightarrow> thrown + Connection"
  teams :: "thrown + Connection"
  issue :: "string \<Rightarrow> thrown + jsvalue"
  createIssue :: "jsvalue \<Rightarrow> thrown + IssuePayload"
  updateIssue :: "jsvalue \<Rightarrow> jsvalue \<Rightarrow> thrown + IssuePayload"

text \<open>The calls a handler makes on the client, in order, with their arguments.\<close>

datatype backend_call =
    Call_issues jsvalue
  | Call_teams
  | Call_issue string
  | Call_createIssue jsvalue
  | Call_updateIssue jsvalue jsvalue

section \<open>The read-resource handler\<close>

record ResourceContents =
  uri :: string
  mimeType :: string
  text_field :: "string option"

record ReadResourceResult =
  contents :: "ResourceContents list"

definition active_filter :: jsvalue where
  "active_filter =
     JObject [(''filter'', JObject [(''state'', JObject [(''type'', JObject [(''in'',
       JArray [JString ''started'', JString ''unstarted'', JString ''backlog''])])])])]"

text \<open>The body of the \<open>try\<close> block up to the \<open>return\<close>: the calls made and either the
  value thrown or the value of \<open>content\<close>.\<close>

definition read_content ::
  "LinearClient \<Rightarrow> string \<Rightarrow> backend_call list \<times> (thrown + jsvalue)" where
  "read_content client u =
     (if u = ''linear://issues/active'' then
        ([Call_issues active_filter],
         case issues client active_filter of Inl e \<Rightarrow> Inl e | Inr c \<Rightarrow> Inr (nodes c))
      else if u = ''linear://teams'' then
        ([Call_teams], case teams client of Inl e \<Rightarrow> Inl e | Inr c \<Rightarrow> Inr (nodes c))
      else if startsWith u ''linear://issues/'' then
        (let issueId = String_replace u ''linear://issues/'' '''' in
         if issueId \<noteq> ''active'' then ([Call_issue issueId], issue client issueId)
         else ([], Inr JUndefined))
      else ([], Inl (McpError InvalidRequest (''Unknown resource: '' @ u))))"

text \<open>The handler: the \<open>catch\<close> turns whatever the \<open>try\<close> block throws into an
  \<open>McpError\<close> with code InternalError.\<close>

definition read_resource ::
  "runtime \<Rightarrow> LinearClient \<Rightarrow> string \<Rightarrow> backend_call list \<times> (thrown + ReadResourceResult)" where
  "read_resource rt client u =
     (case read_content client u of
        (calls, Inr c) \<Rightarrow>
          (calls, Inr \<lparr>contents =
             [\<lparr>uri = u, mimeType = ''application/json'', text_field = JSON_stringify c 2\<rparr>]\<rparr>)
      | (calls, Inl error) \<Rightarrow>
          (calls, Inl (McpError InternalError (''Linear API error: '' @ error_text rt error))))"

section \<open>The call-tool handler\<close>

record TextContent =
  item_type :: string
  item_text :: "string option"

text \<open>\<open>isError\<close> is None where the returned object has no such property.\<close>

record CallToolResult =
  content :: "TextContent list"
  isError :: "bool option"

text \<open>Reading a property of the arguments object; a missing one is \<open>undefined\<close>.\<close>

definition property :: "(string \<rightharpoonup> jsvalue) \<Rightarrow> string \<Rightarrow> jsvalue" where
  "property a k = (case a k of None \<Rightarrow> JUndefined | Some v \<Rightarrow> v)"

text \<open>The template literal \<open>${(await issue.issue)?.url}\<close>\<close>

definition url_text :: "Issue option \<Rightarrow> string" where
  "url_text i = (case i of None \<Rightarrow> ''undefined'' | Some x \<Rightarrow> url x)"

definition text_result :: "string option \<Rightarrow> CallToolResult" where
  "text_result s = \<lparr>content = [\<lparr>item_type = ''text'', item_text = s\<rparr>], isError = None\<rparr>"

text \<open>What the \<open>catch\<close> block returns.\<close>

definition error_result :: "runtime \<Rightarrow> thrown \<Rightarrow> CallToolResult" where
  "error_result rt error =
     \<lparr>content = [\<lparr>item_type = ''text'',
                   item_text = Some (''Linear API error: '' @ error_text rt error)\<rparr>],
      isError = Some True\<rparr>"

text \<open>After \<open>createIssue\<close> or \<open>updateIssue\<close>: await the payload's issue and format.\<close>

definition issue_result :: "string \<Rightarrow> thrown + IssuePayload \<Rightarrow> thrown + CallToolResult" where
  "issue_result label r =
     (case r of
        Inl e \<Rightarrow> Inl e
      | Inr p \<Rightarrow>
          (case payload_issue p of
             Inl e \<Rightarrow> Inl e
           | Inr i \<Rightarrow> Inr (text_result (Some (label @ url_text i)))))"

text \<open>The object literals \<open>{title, description, teamId, priority}\<close> and
  \<open>{title, description}\<close> built from the destructured arguments.\<close>

definition create_input :: "(string \<rightharpoonup> jsvalue) \<Rightarrow> jsvalue" where
  "create_input a =
     JObject [(''title'', property a ''title''),
              (''description'', property a ''description''),
              (''teamId'', property a ''teamId''),
              (''priority'', property a ''priority'')]"

definition update_input :: "(string \<rightharpoonup> jsvalue) \<Rightarrow> jsvalue" where
  "update_input a =
     JObject [(''title'', property a ''title''),
              (''description'', property a ''description'')]"

text \<open>The body of the \<open>try\<close> block. The arguments of a request are optional in the
  protocol; destructuring \<open>undefined\<close> throws a TypeError, at the first property of the
  pattern: \<open>title\<close> for \<open>create_issue\<close>, \<open>issueId\<close> for \<open>update_issue\<close>.\<close>

definition call_body ::
  "runtime \<Rightarrow> LinearClient \<Rightarrow> string \<Rightarrow> (string \<rightharpoonup> jsvalue) option \<Rightarrow>
     backend_call list \<times> (thrown + CallToolResult)" where
  "call_body rt client tool arguments =
     (if tool = ''create_issue'' then
        (case arguments of
           None \<Rightarrow> ([], Inl (ErrorObject (destructure_message rt ''title'')))
         | Some a \<Rightarrow>
             ([Call_createIssue (create_input a)],
              issue_result ''Created issue: '' (createIssue client (create_input a))))
      else if tool = ''update_issue'' then
        (case arguments of
           None \<Rightarrow> ([], Inl (ErrorObject (destructure_message rt ''issueId'')))
         | Some a \<Rightarrow>
             ([Call_updateIssue (property a ''issueId'') (update_input a)],
              issue_result ''Updated issue: ''
                (updateIssue client (property a ''issueId'') (update_input a))))
      else if tool = ''read_team_ids'' then
        ([Call_teams],
         case teams client of
           Inl e \<Rightarrow> Inl e
         | Inr t \<Rightarrow> Inr (text_result (JSON_stringify (nodes t) 0)))
      else ([], Inl (McpError MethodNotFound (''Unknown tool: '' @ tool))))"

text \<open>The handler: the \<open>catch\<close> returns a result for whatever the \<open>try\<close> block throws.\<close>

definition call_tool ::
  "runtime \<Rightarrow> LinearClient \<Rightarrow> string \<Rightarrow> (string \<rightharpoonup> jsvalue) option \<Rightarrow>
     backend_call list \<times> (thrown + CallToolResult)" where
  "call_tool rt client tool arguments =
     (case call_body rt client tool arguments of
        (calls, Inr result) \<Rightarrow> (calls, Inr result)
      | (calls, Inl error) \<Rightarrow> (calls, Inr (error_result rt error)))"

section \<open>The tool catalog\<close>

record PropertySchema =
  prop_type :: string
  prop_description :: string
  minimum :: "int option"
  maximum :: "int option"

record InputSchema =
  schema_type :: string
  properties :: "(string \<times> PropertySchema) list"
  required :: "string list"

record Tool =
  name :: string
  description :: string
  inputSchema :: InputSchema

definition string_property :: "string \<Rightarrow> PropertySchema" where
  "string_property d =
     \<lparr>prop_type = ''string'', prop_description = d, minimum = None, maximum = None\<rparr>"

definition list_tools :: "Tool list" where
  "list_tools =
     [\<lparr>name = ''create_issue'',
       description = ''Create a new issue in Linear'',
       inputSchema =
         \<lparr>schema_type = ''object'',
          properties =
            [(''title'', string_property ''Title of the issue''),
             (''description'', string_property ''Description of the issue''),
             (''teamId'', string_property ''ID of the team to assign the issue to''),
             (''priority'',
                \<lparr>prop_type = ''number'', prop_description = ''Priority of the issue (0-4)'',
                 minimum = Some 0, maximum = Some 4\<rparr>)],
          required = [''title'', ''teamId'']\<rparr>\<rparr>,
      \<lparr>name = ''read_team_ids'',
       description = ''Read team ids'',
       inputSchema = \<lparr>schema_type = ''object'', properties = [], required = []\<rparr>\<rparr>,
      \<lparr>name = ''update_issue'',
       description = ''Update an existing issue in Linear'',
       inputSchema =
         \<lparr>schema_type = ''object'',
          properties =
            [(''issueId'', string_property ''ID of the issue to update''),
             (''title'', string_property ''New title for the issue''),
             (''description'', string_property ''New description for the issue''),
             (''status'', string_property ''New status for the issue'')],
          required = [''issueId'']\<rparr>\<rparr>]"

text \<open>The declared parameters of a tool, and those of them that are not required.\<close>

definition parameters :: "Tool \<Rightarrow> string list" where
  "parameters t = map fst (properties (inputSchema t))"

definition optional_fields :: "Tool \<Rightarrow> string list" where
  "optional_fields t = filter (\<lambda>k. k \<notin> set (required (inputSchema t))) (parameters t)"

section \<open>A runtime and some backends to run the handlers on\<close>

text \<open>The message format of the SDK's \<open>McpError\<close> (\<open>MCP error <code>: <message>\<close>, with
  the JSON-RPC codes), and the TypeError message of V8.\<close>

fun code_number :: "ErrorCode \<Rightarrow> string" where
  "code_number InvalidRequest = ''-32600''"
| "code_number MethodNotFound = ''-32601''"
| "code_number InternalError = ''-32603''"

definition node_runtime :: runtime where
  "node_runtime =
     \<lparr>mcp_message = (\<lambda>c m. ''MCP error '' @ code_number c @ '': '' @ m),
      destructure_message =
        (\<lambda>p. ''Cannot destructure property '' @ [CHR 0x27] @ p @ [CHR 0x27] @ '' of '' @
           [CHR 0x27] @ ''request.params.arguments'' @ [CHR 0x27] @ '' as it is undefined.'')\<rparr>"

definition demo_issue :: jsvalue where
  "demo_issue = JObject [(''id'', JString ''XYZ-123''), (''priority'', JNumber 2)]"

definition demo_team :: jsvalue where
  "demo_team = JObject [(''id'', JString ''team1''), (''name'', JString ''Core'')]"

text \<open>A backend that answers every call.\<close>

definition demo_client :: LinearClient where
  "demo_client =
     \<lparr>issues = (\<lambda>f. Inr \<lparr>nodes = JArray [demo_issue]\<rparr>),
      teams = Inr \<lparr>nodes = JArray [demo_team]\<rparr>,
      issue = (\<lambda>i. Inr demo_issue),
      createIssue =
        (\<lambda>f. Inr \<lparr>payload_issue = Inr (Some \<lparr>url = ''https://linear.app/issue/XYZ-124''\<rparr>)\<rparr>),
      updateIssue =
        (\<lambda>i f. Inr \<lparr>payload_issue = Inr (Some \<lparr>url = ''https://linear.app/issue/XYZ-123''\<rparr>)\<rparr>)\<rparr>"

text \<open>A backend every call of which throws.\<close>

definition failing_client :: LinearClient where
  "failing_client =
     \<lparr>issues = (\<lambda>f. Inl (ErrorObject ''Network down'')),
      teams = Inl (ErrorObject ''Network down''),
      issue = (\<lambda>i. Inl (ErrorObject ''Entity not found'')),
      createIssue = (\<lambda>f. Inl (ErrorObject ''Invalid team'')),
      updateIssue = (\<lambda>i f. Inl (OtherThrown ''timeout''))\<rparr>"


section \<open>String builtins\<close>

lemma String_replace_prefix:
  "prefix p s \<Longrightarrow> String_replace s p r = r @ drop (length p) s"
  by (cases s) auto

lemma issue_id_remainder:
  "String_replace (''linear://issues/'' @ rest) ''linear://issues/'' '''' = rest"
  using String_replace_prefix [of "''linear://issues/''" "''linear://issues/'' @ rest" "''''"]
  by simp

section \<open>The read-resource handler, branch by branch\<close>

lemma read_content_issue:
  "rest \<noteq> ''active'' \<Longrightarrow>
   read_content client (''linear://issues/'' @ rest) = ([Call_issue rest], issue client rest)"
  using issue_id_remainder [of rest]
  by (simp add: read_content_def startsWith_def Let_def)

lemma read_content_unroutable:
  "\<not> startsWith u ''linear://issues/'' \<Longrightarrow> u \<noteq> ''linear://teams'' \<Longrightarrow>
   read_content client u = ([], Inl (McpError InvalidRequest (''Unknown resource: '' @ u)))"
  by (auto simp add: read_content_def startsWith_def)

text \<open>The branch \<open>issueId === "active"\<close> that leaves \<open>content\<close> undefined is dead: the
  handler never returns without a call to the backend.\<close>

lemma read_content_calls_backend:
  "snd (read_content client u) = Inr v \<Longrightarrow> length (fst (read_content client u)) = 1"
proof (cases "startsWith u ''linear://issues/''")
  case True
  then obtain rest where u: "u = ''linear://issues/'' @ rest"
    by (auto simp add: startsWith_def prefix_def)
  show ?thesis
  proof (cases "rest = ''active''")
    case True
    with u show ?thesis by (simp add: read_content_def)
  next
    case False
    from read_content_issue [OF this, of client] show ?thesis
      unfolding u by simp
  qed
next
  case False
  assume v: "snd (read_content client u) = Inr v"
  from False have a: "u \<noteq> ''linear://issues/active''"
    by (auto simp add: startsWith_def)
  show ?thesis
  proof (cases "u = ''linear://teams''")
    case True
    then show ?thesis by (simp add: read_content_def)
  next
    case teams: False
    from read_content_unroutable [OF False teams, of client] v show ?thesis
      by simp
  qed
qed

section \<open>The call-tool handler, branch by branch\<close>

lemma call_tool_create:
  "call_tool rt client ''create_issue'' (Some a) =
     ([Call_createIssue (create_input a)],
      case createIssue client (create_input a) of
        Inl e \<Rightarrow> Inr (error_result rt e)
      | Inr p \<Rightarrow>
          (case payload_issue p of
             Inl e \<Rightarrow> Inr (error_result rt e)
           | Inr i \<Rightarrow> Inr (text_result (Some (''Created issue: '' @ url_text i)))))"
  by (simp add: call_tool_def call_body_def issue_result_def split: sum.splits)

lemma call_tool_update:
  "call_tool rt client ''update_issue'' (Some a) =
     ([Call_updateIssue (property a ''issueId'') (update_input a)],
      case updateIssue client (property a ''issueId'') (update_input a) of
        Inl e \<Rightarrow> Inr (error_result rt e)
      | Inr p \<Rightarrow>
          (case payload_issue p of
             Inl e \<Rightarrow> Inr (error_result rt e)
           | Inr i \<Rightarrow> Inr (text_result (Some (''Updated issue: '' @ url_text i)))))"
  by (simp add: call_tool_def call_body_def issue_result_def split: sum.splits)

lemma call_tool_teams:
  "call_tool rt client ''read_team_ids'' arguments =
     ([Call_teams],
      case teams client of
        Inl e \<Rightarrow> Inr (error_result rt e)
      | Inr t \<Rightarrow> Inr (text_result (JSON_stringify (nodes t) 0)))"
  by (simp add: call_tool_def call_body_def split: sum.splits)

lemma call_tool_no_arguments:
  "call_tool rt client ''create_issue'' None =
     ([], Inr (error_result rt (ErrorObject (destructure_message rt ''title''))))"
  "call_tool rt client ''update_issue'' None =
     ([], Inr (error_result rt (ErrorObject (destructure_message rt ''issueId''))))"
  by (simp_all add: call_tool_def call_body_def)

lemma call_tool_unknown:
  "tool \<noteq> ''create_issue'' \<Longrightarrow> tool \<noteq> ''update_issue'' \<Longrightarrow> tool \<noteq> ''read_team_ids'' \<Longrightarrow>
   call_tool rt client tool arguments =
     ([], Inr (error_result rt (McpError MethodNotFound (''Unknown tool: '' @ tool))))"
  by (simp add: call_tool_def call_body_def)

text \<open>The handler never throws: its \<open>catch\<close> block returns.\<close>

lemma call_tool_returns: "\<exists>calls r. call_tool rt client tool arguments = (calls, Inr r)"
  by (cases "call_body rt client tool arguments"
        rule: prod.exhaust [where 'b = "thrown + CallToolResult"])
     (auto simp add: call_tool_def split: sum.splits)

section \<open>The claims\<close>

text \<open>
  C1. The claim: a call-tool request whose name is none of \<open>create_issue\<close>,
  \<open>read_team_ids\<close>, \<open>update_issue\<close> raises UnknownTool as a protocol-level fault
  (method not found) and does not return a result with \<open>isError = true\<close>.

  The code: the \<open>throw new McpError(ErrorCode.MethodNotFound, ...)\<close> stands inside the
  \<open>try\<close> block, so the handler's own \<open>catch\<close> takes it. For every undeclared name the
  handler returns, without a call to the backend, a result with \<open>isError = true\<close> whose one
  text item is \<open>"Linear API error: "\<close> followed by the message of that McpError.
\<close>

theorem unknown_tool_yields_error_result:
  "tool \<noteq> ''create_issue'' \<and> tool \<noteq> ''read_team_ids'' \<and> tool \<noteq> ''update_issue'' \<longrightarrow>
   call_tool rt client tool arguments =
     ([], Inr \<lparr>content =
                 [\<lparr>item_type = ''text'',
                   item_text = Some (''Linear API error: '' @
                     mcp_message rt MethodNotFound (''Unknown tool: '' @ tool))\<rparr>],
               isError = Some True\<rparr>)"
  by (simp add: call_tool_unknown error_result_def)

theorem unknown_tool_yields_error_result_witness:
  "call_tool node_runtime demo_client ''does_not_exist'' (Some Map.empty) =
     ([], Inr \<lparr>content =
                 [\<lparr>item_type = ''text'',
                   item_text =
                     Some ''Linear API error: MCP error -32601: Unknown tool: does_not_exist''\<rparr>],
               isError = Some True\<rparr>)"
proof -
  have n: "''does_not_exist'' \<noteq> ''create_issue'' \<and> ''does_not_exist'' \<noteq> ''read_team_ids'' \<and>
           ''does_not_exist'' \<noteq> ''update_issue''"
    by simp
  from unknown_tool_yields_error_result
         [where tool = "''does_not_exist''" and rt = node_runtime and client = demo_client
            and arguments = "Some Map.empty"] n
  have "call_tool node_runtime demo_client ''does_not_exist'' (Some Map.empty) =
     ([], Inr \<lparr>content =
                 [\<lparr>item_type = ''text'',
                   item_text = Some (''Linear API error: '' @
                     mcp_message node_runtime MethodNotFound
                       (''Unknown tool: '' @ ''does_not_exist''))\<rparr>],
               isError = Some True\<rparr>)"
    by (rule mp)
  then show ?thesis
    by (simp add: node_runtime_def)
qed

text \<open>
  C2. The claim: a read-resource request whose uri is not \<open>linear://issues/active\<close>, not
  \<open>linear://teams\<close> and does not start with \<open>linear://issues/\<close> fails with
  UnknownResource, surfaced as an invalid-request protocol error, and no backend operation
  is invoked.

  The code: no backend operation is invoked, but the McpError with code InvalidRequest is
  thrown inside the \<open>try\<close> block, and the \<open>catch\<close> replaces it by an McpError with code
  InternalError whose message is \<open>"Linear API error: "\<close> followed by the message of the
  first one.
\<close>

theorem unknown_resource_yields_internal_error:
  "u \<noteq> ''linear://issues/active'' \<and> u \<noteq> ''linear://teams'' \<and>
   \<not> startsWith u ''linear://issues/'' \<longrightarrow>
   read_resource rt client u =
     ([], Inl (McpError InternalError (''Linear API error: '' @
            mcp_message rt InvalidRequest (''Unknown resource: '' @ u))))"
  by (simp add: read_resource_def read_content_unroutable)

theorem unknown_resource_yields_internal_error_witness:
  "read_resource node_runtime demo_client ''linear://unknown'' =
     ([], Inl (McpError InternalError
        ''Linear API error: MCP error -32600: Unknown resource: linear://unknown''))"
proof -
  have n: "''linear://unknown'' \<noteq> ''linear://issues/active'' \<and>
           ''linear://unknown'' \<noteq> ''linear://teams'' \<and>
           \<not> startsWith ''linear://unknown'' ''linear://issues/''"
    by (simp add: startsWith_def)
  from unknown_resource_yields_internal_error
         [where u = "''linear://unknown''" and rt = node_runtime and client = demo_client] n
  have "read_resource node_runtime demo_client ''linear://unknown'' =
     ([], Inl (McpError InternalError (''Linear API error: '' @
            mcp_message node_runtime InvalidRequest
              (''Unknown resource: '' @ ''linear://unknown''))))"
    by (rule mp)
  then show ?thesis
    by (simp add: node_runtime_def)
qed

text \<open>
  C3. The claim: when a required field of the tool's inputSchema (\<open>title\<close> and \<open>teamId\<close>
  for \<open>create_issue\<close>, \<open>issueId\<close> for \<open>update_issue\<close>) is absent from the arguments, the
  call fails before any backend operation is reached.

  It fails on the code: \<open>create_issue\<close> with an empty arguments object calls
  \<open>createIssue\<close> with every field undefined, and returns the success text when the backend
  accepts the call.
\<close>

theorem create_issue_without_fields_reaches_backend:
  "Map.empty ''title'' = (None :: jsvalue option) \<and>
   call_tool node_runtime demo_client ''create_issue'' (Some Map.empty) =
     ([Call_createIssue
         (JObject [(''title'', JUndefined), (''description'', JUndefined),
                   (''teamId'', JUndefined), (''priority'', JUndefined)])],
      Inr \<lparr>content =
             [\<lparr>item_type = ''text'',
               item_text = Some ''Created issue: https://linear.app/issue/XYZ-124''\<rparr>],
           isError = None\<rparr>)"
  by (simp add: call_tool_create create_input_def property_def demo_client_def
      text_result_def url_text_def)

text \<open>
  C3 as amended: the dispatcher does not check the required fields. With an arguments
  object, \<open>create_issue\<close> and \<open>update_issue\<close> call the backend exactly once whatever fields
  are present, a missing field going to the backend as \<open>undefined\<close>. Only when the request
  has no arguments object at all do the two tools fail before the backend is reached, and
  then with a result that has \<open>isError = true\<close>.
\<close>

theorem required_fields_are_not_checked:
  "fst (call_tool rt client ''create_issue'' (Some a)) = [Call_createIssue (create_input a)] \<and>
   fst (call_tool rt client ''update_issue'' (Some a)) =
     [Call_updateIssue (property a ''issueId'') (update_input a)] \<and>
   create_input Map.empty =
     JObject [(''title'', JUndefined), (''description'', JUndefined),
              (''teamId'', JUndefined), (''priority'', JUndefined)] \<and>
   property Map.empty ''issueId'' = JUndefined \<and>
   call_tool rt client ''create_issue'' None =
     ([], Inr (error_result rt (ErrorObject (destructure_message rt ''title'')))) \<and>
   call_tool rt client ''update_issue'' None =
     ([], Inr (error_result rt (ErrorObject (destructure_message rt ''issueId''))))"
  by (simp add: call_tool_create call_tool_update call_tool_no_arguments
      create_input_def property_def)

text \<open>
  C4. The claim: \<open>listTools()\<close> returns exactly three descriptors in declaration order:
  \<open>create_issue\<close> (required \<open>title\<close>, \<open>teamId\<close>; optional \<open>description\<close>, \<open>priority\<close>
  within 0..4), \<open>read_team_ids\<close> (no parameters) and \<open>update_issue\<close> (required \<open>issueId\<close>;
  optional \<open>title\<close>, \<open>description\<close>).

  It fails on the code for the third descriptor, which declares a fourth property,
  \<open>status\<close>.
\<close>

theorem update_issue_declares_status:
  "name (list_tools ! 2) = ''update_issue'' \<and>
   optional_fields (list_tools ! 2) \<noteq> [''title'', ''description''] \<and>
   ''status'' \<in> set (optional_fields (list_tools ! 2))"
  by (simp add: list_tools_def optional_fields_def parameters_def)

text \<open>
  C4 as amended: the same catalog, where the optional fields of \<open>update_issue\<close> are
  \<open>title\<close>, \<open>description\<close> and \<open>status\<close>.
\<close>

theorem list_tools_catalog:
  "map name list_tools = [''create_issue'', ''read_team_ids'', ''update_issue''] \<and>
   map (\<lambda>t. required (inputSchema t)) list_tools = [[''title'', ''teamId''], [], [''issueId'']] \<and>
   map optional_fields list_tools =
     [[''description'', ''priority''], [], [''title'', ''description'', ''status'']] \<and>
   map parameters list_tools =
     [[''title'', ''description'', ''teamId'', ''priority''], [],
      [''issueId'', ''title'', ''description'', ''status'']] \<and>
   map_of (properties (inputSchema (list_tools ! 0))) ''priority'' =
     Some \<lparr>prop_type = ''number'', prop_description = ''Priority of the issue (0-4)'',
           minimum = Some 0, maximum = Some 4\<rparr>"
  by (simp add: list_tools_def optional_fields_def parameters_def)

text \<open>
  C5. For a call-tool request that names one of the three declared tools, a failure of the
  backend call (\<open>createIssue\<close>, \<open>updateIssue\<close> or \<open>teams\<close> throws, or awaiting the payload's
  issue rejects) gives a result with \<open>isError = true\<close> and the single text item
  \<open>"Linear API error: "\<close> followed by the failure's message; the handler returns a result
  for every request and never throws.
\<close>

theorem backend_failure_yields_error_result:
  "(createIssue client (create_input a) = Inl e \<longrightarrow>
      call_tool rt client ''create_issue'' (Some a) =
        ([Call_createIssue (create_input a)], Inr (error_result rt e))) \<and>
   (createIssue client (create_input a) = Inr p \<and> payload_issue p = Inl e \<longrightarrow>
      call_tool rt client ''create_issue'' (Some a) =
        ([Call_createIssue (create_input a)], Inr (error_result rt e))) \<and>
   (updateIssue client (property a ''issueId'') (update_input a) = Inl e \<longrightarrow>
      call_tool rt client ''update_issue'' (Some a) =
        ([Call_updateIssue (property a ''issueId'') (update_input a)],
         Inr (error_result rt e))) \<and>
   (updateIssue client (property a ''issueId'') (update_input a) = Inr p \<and>
    payload_issue p = Inl e \<longrightarrow>
      call_tool rt client ''update_issue'' (Some a) =
        ([Call_updateIssue (property a ''issueId'') (update_input a)],
         Inr (error_result rt e))) \<and>
   (teams client = Inl e \<longrightarrow>
      call_tool rt client ''read_team_ids'' arguments =
        ([Call_teams], Inr (error_result rt e))) \<and>
   error_result rt e =
     \<lparr>content = [\<lparr>item_type = ''text'',
                   item_text = Some (''Linear API error: '' @ error_text rt e)\<rparr>],
      isError = Some True\<rparr> \<and>
   (\<exists>calls r. call_tool rt client tool arguments = (calls, Inr r))"
  using call_tool_returns [of rt client tool arguments]
  by (simp add: call_tool_create call_tool_update call_tool_teams error_result_def)

theorem backend_failure_yields_error_result_witness:
  "call_tool node_runtime failing_client ''create_issue''
      (Some [''title'' \<mapsto> JString ''T'', ''teamId'' \<mapsto> JString ''nope'']) =
     ([Call_createIssue
         (JObject [(''title'', JString ''T''), (''description'', JUndefined),
                   (''teamId'', JString ''nope''), (''priority'', JUndefined)])],
      Inr \<lparr>content = [\<lparr>item_type = ''text'',
                         item_text = Some ''Linear API error: Invalid team''\<rparr>],
           isError = Some True\<rparr>) \<and>
   call_tool node_runtime failing_client ''update_issue''
      (Some [''issueId'' \<mapsto> JString ''XYZ-123'']) =
     ([Call_updateIssue (JString ''XYZ-123'')
         (JObject [(''title'', JUndefined), (''description'', JUndefined)])],
      Inr \<lparr>content = [\<lparr>item_type = ''text'',
                         item_text = Some ''Linear API error: timeout''\<rparr>],
           isError = Some True\<rparr>) \<and>
   call_tool node_runtime failing_client ''read_team_ids'' None =
     ([Call_teams],
      Inr \<lparr>content = [\<lparr>item_type = ''text'',
                         item_text = Some ''Linear API error: Network down''\<rparr>],
           isError = Some True\<rparr>)"
proof -
  let ?a = "[''title'' \<mapsto> JString ''T'', ''teamId'' \<mapsto> JString ''nope'']"
  let ?b = "[''issueId'' \<mapsto> JString ''XYZ-123'']"
  have c: "createIssue failing_client (create_input ?a) = Inl (ErrorObject ''Invalid team'')"
    by (simp add: failing_client_def)
  have u: "updateIssue failing_client (property ?b ''issueId'') (update_input ?b) =
             Inl (OtherThrown ''timeout'')"
    by (simp add: failing_client_def)
  have t: "teams failing_client = Inl (ErrorObject ''Network down'')"
    by (simp add: failing_client_def)
  from backend_failure_yields_error_result
         [where client = failing_client and a = ?a and e = "ErrorObject ''Invalid team''"
            and rt = node_runtime, THEN conjunct1] c
  have 1: "call_tool node_runtime failing_client ''create_issue'' (Some ?a) =
             ([Call_createIssue (create_input ?a)],
              Inr (error_result node_runtime (ErrorObject ''Invalid team'')))"
    by (rule mp)
  from backend_failure_yields_error_result
         [where client = failing_client and a = ?b and e = "OtherThrown ''timeout''"
            and rt = node_runtime, THEN conjunct2, THEN conjunct2, THEN conjunct1] u
  have 2: "call_tool node_runtime failing_client ''update_issue'' (Some ?b) =
             ([Call_updateIssue (property ?b ''issueId'') (update_input ?b)],
              Inr (error_result node_runtime (OtherThrown ''timeout'')))"
    by (rule mp)
  from backend_failure_yields_error_result
         [where client = failing_client and e = "ErrorObject ''Network down''"
            and rt = node_runtime and arguments = None,
          THEN conjunct2, THEN conjunct2, THEN conjunct2, THEN conjunct2, THEN conjunct1] t
  have 3: "call_tool node_runtime failing_client ''read_team_ids'' None =
             ([Call_teams], Inr (error_result node_runtime (ErrorObject ''Network down'')))"
    by (rule mp)
  show ?thesis
    unfolding 1 2 3
    by (simp add: create_input_def update_input_def property_def error_result_def)
qed

text \<open>
  C6. The Resource Reader routes by first match: the uri \<open>linear://issues/active\<close> takes
  the active-issues branch, whose one backend call is the filtered issue list, and never
  the per-issue branch; every other uri that starts with \<open>linear://issues/\<close> has the
  remainder after the prefix passed to the backend's \<open>issue\<close> as the issue id.
\<close>

theorem read_routes_by_first_match:
  "read_resource rt client ''linear://issues/active'' =
     ([Call_issues active_filter],
      case issues client active_filter of
        Inl e \<Rightarrow> Inl (McpError InternalError (''Linear API error: '' @ error_text rt e))
      | Inr c \<Rightarrow>
          Inr \<lparr>contents = [\<lparr>uri = ''linear://issues/active'', mimeType = ''application/json'',
                             text_field = JSON_stringify (nodes c) 2\<rparr>]\<rparr>) \<and>
   (rest \<noteq> ''active'' \<longrightarrow>
      read_resource rt client (''linear://issues/'' @ rest) =
        ([Call_issue rest],
         case issue client rest of
           Inl e \<Rightarrow> Inl (McpError InternalError (''Linear API error: '' @ error_text rt e))
         | Inr v \<Rightarrow>
             Inr \<lparr>contents = [\<lparr>uri = ''linear://issues/'' @ rest,
                                 mimeType = ''application/json'',
                                 text_field = JSON_stringify v 2\<rparr>]\<rparr>))"
proof (intro conjI impI)
  show "read_resource rt client ''linear://issues/active'' =
     ([Call_issues active_filter],
      case issues client active_filter of
        Inl e \<Rightarrow> Inl (McpError InternalError (''Linear API error: '' @ error_text rt e))
      | Inr c \<Rightarrow>
          Inr \<lparr>contents = [\<lparr>uri = ''linear://issues/active'', mimeType = ''application/json'',
                             text_field = JSON_stringify (nodes c) 2\<rparr>]\<rparr>)"
    by (simp add: read_resource_def read_content_def split: sum.splits)
next
  assume "rest \<noteq> ''active''"
  from read_content_issue [OF this, of client] show
    "read_resource rt client (''linear://issues/'' @ rest) =
        ([Call_issue rest],
         case issue client rest of
           Inl e \<Rightarrow> Inl (McpError InternalError (''Linear API error: '' @ error_text rt e))
         | Inr v \<Rightarrow>
             Inr \<lparr>contents = [\<lparr>uri = ''linear://issues/'' @ rest,
                                 mimeType = ''application/json'',
                                 text_field = JSON_stringify v 2\<rparr>]\<rparr>)"
    by (simp add: read_resource_def split: sum.splits)
qed

theorem read_routes_by_first_match_witness:
  "fst (read_resource node_runtime demo_client ''linear://issues/XYZ-123'') =
     [Call_issue ''XYZ-123''] \<and>
   fst (read_resource node_runtime demo_client ''linear://issues/active'') =
     [Call_issues active_filter]"
proof -
  have ne: "''XYZ-123'' \<noteq> ''active''" by simp
  from ne read_routes_by_first_match
            [where rt = node_runtime and client = demo_client and rest = "''XYZ-123''"]
  have "fst (read_resource node_runtime demo_client (''linear://issues/'' @ ''XYZ-123'')) =
          [Call_issue ''XYZ-123''] \<and>
        fst (read_resource node_runtime demo_client ''linear://issues/active'') =
          [Call_issues active_filter]"
    by simp
  then show ?thesis by simp
qed

text \<open>
  C7. For every \<open>update_issue\<close> call with an arguments object, the dispatcher calls the
  backend's \<open>updateIssue\<close> with the given \<open>issueId\<close> and an update object that has exactly
  the fields \<open>title\<close> and \<open>description\<close>, each passed through even when undefined; a
  \<open>status\<close> argument changes nothing; and on success the result is one text item,
  \<open>"Updated issue: "\<close> followed by the url of the resulting issue.
\<close>

theorem update_issue_forwards_title_and_description:
  "fst (call_tool rt client ''update_issue'' (Some a)) =
     [Call_updateIssue
        (case a ''issueId'' of None \<Rightarrow> JUndefined | Some v \<Rightarrow> v)
        (JObject [(''title'', case a ''title'' of None \<Rightarrow> JUndefined | Some v \<Rightarrow> v),
                  (''description'',
                     case a ''description'' of None \<Rightarrow> JUndefined | Some v \<Rightarrow> v)])] \<and>
   call_tool rt client ''update_issue'' (Some (a(''status'' \<mapsto> s))) =
     call_tool rt client ''update_issue'' (Some a) \<and>
   (updateIssue client (property a ''issueId'') (update_input a) = Inr p \<and>
    payload_issue p = Inr (Some i) \<longrightarrow>
      snd (call_tool rt client ''update_issue'' (Some a)) =
        Inr \<lparr>content = [\<lparr>item_type = ''text'',
                           item_text = Some (''Updated issue: '' @ url i)\<rparr>],
             isError = None\<rparr>)"
  by (simp add: call_tool_update update_input_def property_def text_result_def url_text_def)

theorem update_issue_forwards_title_and_description_witness:
  "call_tool node_runtime demo_client ''update_issue''
     (Some [''issueId'' \<mapsto> JString ''XYZ-123'', ''status'' \<mapsto> JString ''Done'']) =
     ([Call_updateIssue (JString ''XYZ-123'')
         (JObject [(''title'', JUndefined), (''description'', JUndefined)])],
      Inr \<lparr>content = [\<lparr>item_type = ''text'',
                         item_text = Some ''Updated issue: https://linear.app/issue/XYZ-123''\<rparr>],
           isError = None\<rparr>)"
proof -
  let ?a = "[''issueId'' \<mapsto> JString ''XYZ-123'', ''status'' \<mapsto> JString ''Done'']"
  let ?p = "\<lparr>payload_issue = Inr (Some \<lparr>url = ''https://linear.app/issue/XYZ-123''\<rparr>)\<rparr>"
  have u: "updateIssue demo_client (property ?a ''issueId'') (update_input ?a) = Inr ?p"
    by (simp add: demo_client_def)
  have i: "payload_issue ?p = Inr (Some \<lparr>url = ''https://linear.app/issue/XYZ-123''\<rparr>)"
    by simp
  from u i update_issue_forwards_title_and_description
         [where rt = node_runtime and client = demo_client and a = ?a and p = ?p
            and i = "\<lparr>url = ''https://linear.app/issue/XYZ-123''\<rparr>"]
  have "fst (call_tool node_runtime demo_client ''update_issue'' (Some ?a)) =
          [Call_updateIssue (JString ''XYZ-123'')
             (JObject [(''title'', JUndefined), (''description'', JUndefined)])] \<and>
        snd (call_tool node_runtime demo_client ''update_issue'' (Some ?a)) =
          Inr \<lparr>content = [\<lparr>item_type = ''text'',
                  item_text = Some (''Updated issue: '' @ ''https://linear.app/issue/XYZ-123'')\<rparr>],
               isError = None\<rparr>"
    by simp
  then show ?thesis
    by (simp add: prod_eq_iff)
qed

text \<open>
  C8. For a read-resource request with a routable uri whose backend call succeeds, the
  one entry of the result's contents has the input uri as its \<open>uri\<close>, and its text is
  \<open>JSON.stringify(payload, null, 2)\<close>, indented by two spaces, of the very value the
  backend returned: the handler applies no replacer and changes nothing in the payload.
\<close>

theorem read_echoes_uri_and_serializes_payload:
  "(issues client active_filter = Inr c \<longrightarrow>
      snd (read_resource rt client ''linear://issues/active'') =
        Inr \<lparr>contents = [\<lparr>uri = ''linear://issues/active'', mimeType = ''application/json'',
                            text_field = JSON_stringify (nodes c) 2\<rparr>]\<rparr>) \<and>
   (teams client = Inr c \<longrightarrow>
      snd (read_resource rt client ''linear://teams'') =
        Inr \<lparr>contents = [\<lparr>uri = ''linear://teams'', mimeType = ''application/json'',
                            text_field = JSON_stringify (nodes c) 2\<rparr>]\<rparr>) \<and>
   (startsWith u ''linear://issues/'' \<and> u \<noteq> ''linear://issues/active'' \<and>
    issue client (drop 16 u) = Inr v \<longrightarrow>
      snd (read_resource rt client u) =
        Inr \<lparr>contents = [\<lparr>uri = u, mimeType = ''application/json'',
                            text_field = JSON_stringify v 2\<rparr>]\<rparr>) \<and>
   JSON_stringify v 2 = SerializeJSONProperty ''  '' [] v"
proof (intro conjI impI)
  assume "issues client active_filter = Inr c"
  then show "snd (read_resource rt client ''linear://issues/active'') =
        Inr \<lparr>contents = [\<lparr>uri = ''linear://issues/active'', mimeType = ''application/json'',
                            text_field = JSON_stringify (nodes c) 2\<rparr>]\<rparr>"
    by (simp add: read_resource_def read_content_def)
next
  assume "teams client = Inr c"
  then show "snd (read_resource rt client ''linear://teams'') =
        Inr \<lparr>contents = [\<lparr>uri = ''linear://teams'', mimeType = ''application/json'',
                            text_field = JSON_stringify (nodes c) 2\<rparr>]\<rparr>"
    by (simp add: read_resource_def read_content_def)
next
  assume h: "startsWith u ''linear://issues/'' \<and> u \<noteq> ''linear://issues/active'' \<and>
    issue client (drop 16 u) = Inr v"
  then obtain rest where u: "u = ''linear://issues/'' @ rest"
    by (auto simp add: startsWith_def prefix_def)
  with h have rest: "rest \<noteq> ''active''" and v: "issue client rest = Inr v"
    by auto
  have "read_content client u = ([Call_issue rest], Inr v)"
    unfolding u using read_content_issue [OF rest, of client] v by simp
  then show "snd (read_resource rt client u) =
        Inr \<lparr>contents = [\<lparr>uri = u, mimeType = ''application/json'',
                            text_field = JSON_stringify v 2\<rparr>]\<rparr>"
    by (simp add: read_resource_def)
next
  show "JSON_stringify v 2 = SerializeJSONProperty ''  '' [] v"
    by (simp add: JSON_stringify_def numeral_2_eq_2)
qed

theorem read_echoes_uri_and_serializes_payload_witness:
  "snd (read_resource node_runtime demo_client ''linear://teams'') =
     Inr \<lparr>contents = [\<lparr>uri = ''linear://teams'', mimeType = ''application/json'',
        text_field = Some (''['' @ [CHR 0x0A] @
          ''  {'' @ [CHR 0x0A] @
          ''    '' @ [CHR 0x22] @ ''id'' @ [CHR 0x22] @ '': '' @
                     [CHR 0x22] @ ''team1'' @ [CHR 0x22] @ '','' @ [CHR 0x0A] @
          ''    '' @ [CHR 0x22] @ ''name'' @ [CHR 0x22] @ '': '' @
                     [CHR 0x22] @ ''Core'' @ [CHR 0x22] @ [CHR 0x0A] @
          ''  }'' @ [CHR 0x0A] @
          '']'')\<rparr>]\<rparr> \<and>
   snd (read_resource node_runtime demo_client ''linear://issues/active'') =
     Inr \<lparr>contents = [\<lparr>uri = ''linear://issues/active'', mimeType = ''application/json'',
        text_field = JSON_stringify (JArray [demo_issue]) 2\<rparr>]\<rparr> \<and>
   snd (read_resource node_runtime demo_client ''linear://issues/XYZ-123'') =
     Inr \<lparr>contents = [\<lparr>uri = ''linear://issues/XYZ-123'', mimeType = ''application/json'',
        text_field = JSON_stringify demo_issue 2\<rparr>]\<rparr>"
proof -
  have t: "teams demo_client = Inr \<lparr>nodes = JArray [demo_team]\<rparr>"
    by (simp add: demo_client_def)
  have a: "issues demo_client active_filter = Inr \<lparr>nodes = JArray [demo_issue]\<rparr>"
    by (simp add: demo_client_def)
  have i: "startsWith ''linear://issues/XYZ-123'' ''linear://issues/'' \<and>
           ''linear://issues/XYZ-123'' \<noteq> ''linear://issues/active'' \<and>
           issue demo_client (drop 16 ''linear://issues/XYZ-123'') = Inr demo_issue"
    by (simp add: demo_client_def startsWith_def)
  have s: "JSON_stringify (JArray [demo_team]) 2 = Some (''['' @ [CHR 0x0A] @
          ''  {'' @ [CHR 0x0A] @
          ''    '' @ [CHR 0x22] @ ''id'' @ [CHR 0x22] @ '': '' @
                     [CHR 0x22] @ ''team1'' @ [CHR 0x22] @ '','' @ [CHR 0x0A] @
          ''    '' @ [CHR 0x22] @ ''name'' @ [CHR 0x22] @ '': '' @
                     [CHR 0x22] @ ''Core'' @ [CHR 0x22] @ [CHR 0x0A] @
          ''  }'' @ [CHR 0x0A] @
          '']'')"
    by code_simp
  from t read_echoes_uri_and_serializes_payload
         [where client = demo_client and c = "\<lparr>nodes = JArray [demo_team]\<rparr>"
            and rt = node_runtime]
  have 1: "snd (read_resource node_runtime demo_client ''linear://teams'') =
        Inr \<lparr>contents = [\<lparr>uri = ''linear://teams'', mimeType = ''application/json'',
                            text_field = JSON_stringify (JArray [demo_team]) 2\<rparr>]\<rparr>"
    by simp
  from a read_echoes_uri_and_serializes_payload
         [where client = demo_client and c = "\<lparr>nodes = JArray [demo_issue]\<rparr>"
            and rt = node_runtime]
  have 2: "snd (read_resource node_runtime demo_client ''linear://issues/active'') =
     Inr \<lparr>contents = [\<lparr>uri = ''linear://issues/active'', mimeType = ''application/json'',
        text_field = JSON_stringify (JArray [demo_issue]) 2\<rparr>]\<rparr>"
    by simp
  from read_echoes_uri_and_serializes_payload
         [where client = demo_client and u = "''linear://issues/XYZ-123''" and v = demo_issue
            and rt = node_runtime, THEN conjunct2, THEN conjunct2, THEN conjunct1] i
  have 3: "snd (read_resource node_runtime demo_client ''linear://issues/XYZ-123'') =
     Inr \<lparr>contents = [\<lparr>uri = ''linear://issues/XYZ-123'', mimeType = ''application/json'',
        text_field = JSON_stringify demo_issue 2\<rparr>]\<rparr>"
    by (rule mp)
  show ?thesis
    unfolding 1 2 3 s by simp
qed



end
